theory Spec2Isabelle
  imports Main
begin

section \<open>The values the plugin handles\<close>

text \<open>
  The embedding is of the fingerprint plugin in its version 1.0.3 (the repository also
  keeps two earlier variants of the file, with the same \<^verbatim>\<open>load\<close> in outline); line
  numbers are those of that file. The plugin is dynamically typed: its
  configuration is whatever \<^verbatim>\<open>module.config()\<close> returns, and the code inspects it with
  \<^verbatim>\<open>typeof\<close>, truthiness tests and property reads. The embedding therefore works on a
  small universe of JavaScript values: \<^verbatim>\<open>undefined\<close>, strings, arrays, plain objects
  (an association list of own properties, first binding wins; the prototype is
  \<^verbatim>\<open>Object.prototype\<close>) and functions, of which a function is known by the text its
  conversion to a string gives. Numbers, booleans and \<^verbatim>\<open>null\<close> do not occur in it. A
  string is a list of code units below 256.
\<close>

datatype jsval =
  JUndefined | JStr string | JArr "jsval list" | JObj "(string \<times> jsval) list" | JFunction string

text \<open>Truthiness: \<^verbatim>\<open>undefined\<close> and the empty string are falsy, everything else is truthy.\<close>

fun truthy :: "jsval \<Rightarrow> bool" where
  "truthy JUndefined = False"
| "truthy (JStr s) = (s \<noteq> [])"
| "truthy (JArr xs) = True"
| "truthy (JObj kvs) = True"
| "truthy (JFunction text) = True"

fun typeof :: "jsval \<Rightarrow> string" where
  "typeof JUndefined = ''undefined''"
| "typeof (JStr s) = ''string''"
| "typeof (JArr xs) = ''object''"
| "typeof (JObj kvs) = ''object''"
| "typeof (JFunction text) = ''function''"

text \<open>\<^verbatim>\<open>Array.prototype.join\<close> on strings already converted.\<close>

fun join :: "string \<Rightarrow> string list \<Rightarrow> string" where
  "join sep [] = []"
| "join sep [x] = x"
| "join sep (x # y # ys) = x @ sep @ join sep (y # ys)"

text \<open>
  String conversion, as the \<^verbatim>\<open>+\<close> operator applies it to an operand next to a string:
  an array is joined with commas (an \<^verbatim>\<open>undefined\<close> element gives the empty string), a
  plain object gives \<^verbatim>\<open>[object Object]\<close>, a function its text.
\<close>

fun ToString :: "jsval \<Rightarrow> string" where
  "ToString JUndefined = ''undefined''"
| "ToString (JStr s) = s"
| "ToString (JArr xs) = join '','' (map (\<lambda>x. if x = JUndefined then [] else ToString x) xs)"
| "ToString (JObj kvs) = ''[object Object]''"
| "ToString (JFunction text) = text"

text \<open>The decimal spelling of an array index.\<close>

fun decimal :: "nat \<Rightarrow> string" where
  "decimal n = (if n < 10 then [''0123456789'' ! n]
                else decimal (n div 10) @ [''0123456789'' ! (n mod 10)])"

declare decimal.simps [simp del]

text \<open>
  What a plain object inherits: the properties of \<^verbatim>\<open>Object.prototype\<close>, which are the
  standard methods, the four accessor helpers and \<^verbatim>\<open>__proto__\<close>, whose value is the
  prototype itself. None of them is enumerable. The text of a built-in function is
  given as V8 and JavaScriptCore print it; other engines break the lines differently.
\<close>

definition native :: "string \<Rightarrow> jsval" where
  "native name = JFunction (''function '' @ name @ ''() { [native code] }'')"

definition object_methods :: "(string \<times> jsval) list" where
  "object_methods =
     [(''constructor'', native ''Object''), (''toString'', native ''toString''),
      (''toLocaleString'', native ''toLocaleString''), (''valueOf'', native ''valueOf''),
      (''hasOwnProperty'', native ''hasOwnProperty''),
      (''isPrototypeOf'', native ''isPrototypeOf''),
      (''propertyIsEnumerable'', native ''propertyIsEnumerable''),
      (''__defineGetter__'', native ''__defineGetter__''),
      (''__defineSetter__'', native ''__defineSetter__''),
      (''__lookupGetter__'', native ''__lookupGetter__''),
      (''__lookupSetter__'', native ''__lookupSetter__'')]"

definition object_prototype :: "(string \<times> jsval) list" where
  "object_prototype = object_methods @ [(''__proto__'', JObj object_methods)]"

text \<open>
  The own enumerable property names (what \<^verbatim>\<open>for (var key in v)\<close> visits) and the
  property read \<^verbatim>\<open>v[key]\<close>: an own property if there is one, an inherited one
  otherwise. The plugin never reads a property of \<^verbatim>\<open>undefined\<close> (every such read is
  guarded by \<^verbatim>\<open>typeof\<close> or a truthiness test), so that equation is never reached. Of
  an array, a string and a function only the own elements are read here: their
  \<^verbatim>\<open>length\<close> and what their prototypes hold are left out. The plugin reads such a
  value under a name of its own choice (\<^verbatim>\<open>fingerprint\<close>, \<^verbatim>\<open>default\<close>, \<^verbatim>\<open>options\<close>
  and the like, which no prototype holds) except in line 111, where the name is the
  module's; a theorem in which that read may find something other than an own property
  takes the mapping to be a plain object (\<open>plain_mapping\<close>).
\<close>

fun own_keys :: "jsval \<Rightarrow> string list" where
  "own_keys JUndefined = []"
| "own_keys (JStr s) = map decimal [0..<length s]"
| "own_keys (JArr xs) = map decimal [0..<length xs]"
| "own_keys (JObj kvs) = remdups (map fst kvs)"
| "own_keys (JFunction text) = []"

fun get :: "jsval \<Rightarrow> string \<Rightarrow> jsval" where
  "get JUndefined k = JUndefined"
| "get (JStr s) k =
     (case filter (\<lambda>i. decimal i = k) [0..<length s] of [] \<Rightarrow> JUndefined | i # _ \<Rightarrow> JStr [s ! i])"
| "get (JArr xs) k =
     (case filter (\<lambda>i. decimal i = k) [0..<length xs] of [] \<Rightarrow> JUndefined | i # _ \<Rightarrow> xs ! i)"
| "get (JObj kvs) k =
     (case map_of kvs k of
        Some v \<Rightarrow> v
      | None \<Rightarrow> (case map_of object_prototype k of None \<Rightarrow> JUndefined | Some v \<Rightarrow> v))"
| "get (JFunction text) k = JUndefined"

text \<open>The assignment \<^verbatim>\<open>result[key] = v\<close> on a plain object.\<close>

fun put :: "string \<Rightarrow> jsval \<Rightarrow> (string \<times> jsval) list \<Rightarrow> (string \<times> jsval) list" where
  "put k v [] = [(k, v)]"
| "put k v ((k', v') # kvs) = (if k' = k then (k, v) # kvs else (k', v') # put k v kvs)"

section \<open>Strings and the two regular expressions\<close>

text \<open>
  \<^verbatim>\<open>extensionRegex\<close> is \<^verbatim>\<open>new RegExp('\\.(' + options.extensions.join('|') + ')$', 'gi')\<close>.
  The embedding keeps the alternatives of its group, obtained by cutting the joined
  text at every \<^verbatim>\<open>|\<close>, and reads each alternative literally. That is what the
  regular expression does when the alternatives consist of letters and digits, as the
  built-in \<^verbatim>\<open>js\<close>, \<^verbatim>\<open>css\<close> and \<^verbatim>\<open>json\<close> do, and only then: every theorem that
  rests on the match has this as a hypothesis (\<open>literal_extensions\<close>) or is about the
  built-in extensions. The flag \<^verbatim>\<open>i\<close> identifies the two cases of an ASCII letter,
  which is all it does against alternatives written in ASCII.
\<close>

fun split_bar :: "string \<Rightarrow> string list" where
  "split_bar [] = [[]]"
| "split_bar (c # cs) =
     (if c = CHR ''|'' then [] # split_bar cs
      else (case split_bar cs of [] \<Rightarrow> [[c]] | w # ws \<Rightarrow> (c # w) # ws))"

definition upper :: "char \<Rightarrow> char" where
  "upper c = (case map_of (zip ''abcdefghijklmnopqrstuvwxyz'' ''ABCDEFGHIJKLMNOPQRSTUVWXYZ'') c of
                None \<Rightarrow> c | Some u \<Rightarrow> u)"

definition same_text :: "string \<Rightarrow> string \<Rightarrow> bool" where
  "same_text s t = (map upper s = map upper t)"

text \<open>
  \<^verbatim>\<open>url.match(extensionRegex)\<close> and the groups of its match: the leftmost position at
  which a dot is followed, up to the end of the text, by one of the alternatives. The
  result is the text before the dot and the text after it (the group \<^verbatim>\<open>$1\<close>, in the
  URL's own spelling). A match ends at the end of the text, so the flag \<^verbatim>\<open>g\<close> finds no
  second one.
\<close>

fun ext_match :: "string list \<Rightarrow> string \<Rightarrow> (string \<times> string) option" where
  "ext_match alts [] = None"
| "ext_match alts (c # cs) =
     (if c = CHR ''.'' \<and> list_ex (same_text cs) alts then Some ([], cs)
      else (case ext_match alts cs of None \<Rightarrow> None | Some (pre, ext) \<Rightarrow> Some (c # pre, ext)))"

text \<open>\<^verbatim>\<open>loadName.replace(/^\.\//, '')\<close>: one leading \<^verbatim>\<open>./\<close> is removed.\<close>

fun strip_dot_slash :: "string \<Rightarrow> string" where
  "strip_dot_slash (c # d # cs) = (if c = CHR ''.'' \<and> d = CHR ''/'' then cs else c # d # cs)"
| "strip_dot_slash cs = cs"

section \<open>The unary plus\<close>

text \<open>
  In \<^verbatim>\<open>beforeExtension\<close> mode the replacement text is \<^verbatim>\<open>+fingerprint + '.$1'\<close>: the
  unary plus converts the fingerprint to a number, and the concatenation converts the
  number back to text. Which texts are numeric literals is decided here, following the
  grammar of \<^verbatim>\<open>StringNumericLiteral\<close>: surrounding white space is dropped, the empty
  text is zero, and anything that is neither \<^verbatim>\<open>Infinity\<close> nor a decimal, hexadecimal,
  octal or binary literal is \<^verbatim>\<open>NaN\<close>. How the engine spells the value of a literal
  (rounding to a double and printing the shortest digits) is floating-point arithmetic
  and stays a parameter, \<open>render\<close>.
\<close>

definition is_space :: "char \<Rightarrow> bool" where
  "is_space c = (of_char c \<in> {9, 10, 11, 12, 13, 32, 160 :: nat})"

definition trim :: "string \<Rightarrow> string" where
  "trim s = rev (dropWhile is_space (rev (dropWhile is_space s)))"

definition digits_of :: "string \<Rightarrow> string \<Rightarrow> bool" where
  "digits_of alphabet s = (s \<noteq> [] \<and> list_all (\<lambda>c. c \<in> set alphabet) s)"

definition is_decimal_digit :: "char \<Rightarrow> bool" where
  "is_decimal_digit c = (c \<in> set ''0123456789'')"

text \<open>\<^verbatim>\<open>SignedInteger\<close>: an optional sign and at least one digit.\<close>

fun signed_integer :: "string \<Rightarrow> bool" where
  "signed_integer [] = False"
| "signed_integer (c # cs) =
     (if c = CHR ''+'' \<or> c = CHR ''-'' then digits_of ''0123456789'' cs
      else digits_of ''0123456789'' (c # cs))"

text \<open>An optional \<^verbatim>\<open>ExponentPart\<close> reaching the end of the text.\<close>

fun exponent_opt :: "string \<Rightarrow> bool" where
  "exponent_opt [] = True"
| "exponent_opt (c # cs) = ((c = CHR ''e'' \<or> c = CHR ''E'') \<and> signed_integer cs)"

text \<open>\<^verbatim>\<open>StrUnsignedDecimalLiteral\<close> other than \<^verbatim>\<open>Infinity\<close>.\<close>

definition unsigned_decimal :: "string \<Rightarrow> bool" where
  "unsigned_decimal s =
     (let whole = takeWhile is_decimal_digit s; rest = dropWhile is_decimal_digit s in
      case rest of
        [] \<Rightarrow> whole \<noteq> []
      | c # cs \<Rightarrow>
          if c = CHR ''.''
          then (let frac = takeWhile is_decimal_digit cs; tail = dropWhile is_decimal_digit cs
                in (whole \<noteq> [] \<or> frac \<noteq> []) \<and> exponent_opt tail)
          else whole \<noteq> [] \<and> exponent_opt rest)"

text \<open>\<^verbatim>\<open>NonDecimalIntegerLiteral\<close>: \<^verbatim>\<open>0x\<close>, \<^verbatim>\<open>0o\<close> or \<^verbatim>\<open>0b\<close> and digits of that base.\<close>

fun non_decimal :: "string \<Rightarrow> bool" where
  "non_decimal (z # b # cs) =
     (z = CHR ''0'' \<and>
      (if b = CHR ''x'' \<or> b = CHR ''X'' then digits_of ''0123456789abcdefABCDEF'' cs
       else if b = CHR ''o'' \<or> b = CHR ''O'' then digits_of ''01234567'' cs
       else if b = CHR ''b'' \<or> b = CHR ''B'' then digits_of ''01'' cs
       else False))"
| "non_decimal cs = False"

fun finite_literal :: "string \<Rightarrow> bool" where
  "finite_literal [] = False"
| "finite_literal (c # cs) =
     (non_decimal (c # cs) \<or>
      (if c = CHR ''+'' \<or> c = CHR ''-'' then unsigned_decimal cs else unsigned_decimal (c # cs)))"

text \<open>The text of \<^verbatim>\<open>+s\<close> for a string \<open>s\<close>, as a later concatenation spells it.\<close>

definition number_text :: "(string \<Rightarrow> string) \<Rightarrow> string \<Rightarrow> string" where
  "number_text render s =
     (let t = trim s in
      if t = [] then ''0''
      else if t = ''Infinity'' \<or> t = ''+Infinity'' then ''Infinity''
      else if t = ''-Infinity'' then ''-Infinity''
      else if finite_literal t then render t
      else ''NaN'')"

section \<open>The plugin\<close>

text \<open>
  The module's factory runs once. It throws when there is no configuration, and the
  call \<^verbatim>\<open>options.extensions.join\<close> throws a \<^verbatim>\<open>TypeError\<close> when the merged options do
  not hold an array there. What it leaves behind are the variables the \<^verbatim>\<open>load\<close> function
  closes over. The construction of the regular expression is followed for extensions of
  letters and digits, where it cannot fail; for other texts the constructor may throw a
  \<^verbatim>\<open>SyntaxError\<close>, which the factory below does not know.
\<close>

datatype error = Error string | TypeError

record plugin =
  defaultFingerprint :: jsval
  fingerprints :: jsval
  options :: jsval
  extensionRegex :: "string list"

definition APPEND :: string where
  "APPEND = ''append''"

definition BEFORE_EXTENSION :: string where
  "BEFORE_EXTENSION = ''beforeExtension''"

definition builtin_options :: jsval where
  "builtin_options =
     JObj [(''mode'', JStr APPEND), (''suffix'', JStr []), (''prefix'', JStr ''?''),
           (''defaultExtension'', JStr ''.js''),
           (''extensions'', JArr [JStr ''js'', JStr ''css'', JStr ''json''])]"

text \<open>
  \<^verbatim>\<open>extend\<close> (lines 72-77): every own key of the extender is assigned on the result,
  which is returned.
\<close>

fun extend :: "jsval \<Rightarrow> jsval \<Rightarrow> jsval" where
  "extend (JObj kvs) extender =
     JObj (foldl (\<lambda>result key. put key (get extender key) result) kvs (own_keys extender))"
| "extend result extender = result"

text \<open>\<^verbatim>\<open>v.join(sep)\<close>: only an array has the method.\<close>

fun array_join :: "string \<Rightarrow> jsval \<Rightarrow> error + string" where
  "array_join sep (JArr xs) =
     Inr (join sep (map (\<lambda>x. if x = JUndefined then [] else ToString x) xs))"
| "array_join sep v = Inl TypeError"

text \<open>Line 83: \<^verbatim>\<open>moduleConfig.fingerprint || moduleConfig.fingerprints || moduleConfig\<close>\<close>

definition candidate :: "jsval \<Rightarrow> jsval" where
  "candidate moduleConfig =
     (if truthy (get moduleConfig ''fingerprint'') then get moduleConfig ''fingerprint''
      else if truthy (get moduleConfig ''fingerprints'') then get moduleConfig ''fingerprints''
      else moduleConfig)"

text \<open>
  The factory (lines 43-98), given the value of \<^verbatim>\<open>module.config && module.config()\<close>. The first
  component of the triple is \<^verbatim>\<open>defaultFingerprint\<close>, the second \<^verbatim>\<open>fingerprints\<close>, the
  third \<^verbatim>\<open>options\<close>.
\<close>

definition factory :: "jsval \<Rightarrow> error + plugin" where
  "factory moduleConfig =
     (if \<not> truthy moduleConfig then Inl (Error ''Require.fingerprint need to be configured'')
      else
        let (d, f, opts) =
          (if typeof moduleConfig = ''object'' then
             (let c = candidate moduleConfig;
                  (d, f) =
                    (if typeof c = ''string'' then (c, JUndefined)
                     else if truthy (get c ''default'') then (get c ''default'', c)
                     else (JUndefined, c))
              in (d, f,
                  if get moduleConfig ''options'' \<noteq> JUndefined
                  then extend builtin_options (get moduleConfig ''options'')
                  else builtin_options))
           else (if typeof moduleConfig = ''string'' then moduleConfig else JUndefined,
                 JUndefined, builtin_options))
        in case array_join ''|'' (get opts ''extensions'') of
             Inl e \<Rightarrow> Inl e
           | Inr alternatives \<Rightarrow>
               Inr \<lparr>defaultFingerprint = d, fingerprints = f, options = opts,
                    extensionRegex = split_bar alternatives\<rparr>)"

subsection \<open>The host\<close>

text \<open>
  \<^verbatim>\<open>req\<close> is the host's local \<^verbatim>\<open>require\<close>: three queries and the request itself, which
  takes the names to load and the function to call with the loaded value. What a call
  of the host or of the completion callback does is a value of an arbitrary type \<open>'r\<close>.
  \<^verbatim>\<open>config\<close> is the host's configuration object, of which the plugin reads
  \<^verbatim>\<open>isBuild\<close> and writes \<^verbatim>\<open>map\<close>: buckets of names, each a table from a module name to
  the name to load in its place.
\<close>

record ('v, 'r) require =
  specified :: "string \<Rightarrow> bool"
  defined :: "string \<Rightarrow> bool"
  toUrl :: "string \<Rightarrow> string"
  request :: "string list \<Rightarrow> ('v \<Rightarrow> 'r) \<Rightarrow> 'r"

record config =
  isBuild :: bool
  map_js :: "(string \<rightharpoonup> (string \<rightharpoonup> string)) option"

subsection \<open>The function \<^verbatim>\<open>load\<close>\<close>

text \<open>
  Lines 109-113: the fingerprint of a name, before the prefix and the suffix are put
  around it.
\<close>

definition lookup :: "plugin \<Rightarrow> string \<Rightarrow> jsval" where
  "lookup p name =
     (if truthy (fingerprints p) \<and> get (fingerprints p) name \<noteq> JUndefined
      then get (fingerprints p) name
      else defaultFingerprint p)"

text \<open>
  Lines 116-118: \<^verbatim>\<open>options.prefix + fingerprint + options.suffix\<close>, under its guard. The fingerprint is
  truthy there, hence a string, an array or an object, and each \<^verbatim>\<open>+\<close> concatenates.
\<close>

definition wrap :: "plugin \<Rightarrow> jsval \<Rightarrow> jsval" where
  "wrap p fingerprint =
     (if truthy fingerprint \<and>
         (truthy (get (options p) ''suffix'') \<or> truthy (get (options p) ''prefix''))
      then JStr (ToString (get (options p) ''prefix'') @ ToString fingerprint @
                 ToString (get (options p) ''suffix''))
      else fingerprint)"

text \<open>Lines 125-147: the load name computed from the URL and a truthy fingerprint.\<close>

definition fingerprinted :: "(string \<Rightarrow> string) \<Rightarrow> plugin \<Rightarrow> string \<Rightarrow> jsval \<Rightarrow> string" where
  "fingerprinted render p url fingerprint =
     (case ext_match (extensionRegex p) url of
        Some (pre, ext) \<Rightarrow>
          if get (options p) ''mode'' = JStr BEFORE_EXTENSION
          then pre @ number_text render (ToString fingerprint) @ ''.'' @ ext
          else url @ ToString fingerprint
      | None \<Rightarrow>
          (let loadName = (if get (options p) ''mode'' = JStr BEFORE_EXTENSION
                           then url @ ToString fingerprint else url);
               loadName = (if CHR ''!'' \<notin> set url \<and> truthy (get (options p) ''defaultExtension'')
                           then loadName @ ToString (get (options p) ''defaultExtension'')
                           else loadName)
           in if get (options p) ''mode'' = JStr APPEND
              then loadName @ ToString fingerprint else loadName))"

text \<open>
  Lines 151-156: \<^verbatim>\<open>config.map['*'][name] = loadName.replace(/^\.\//, '')\<close>, both tables
  made if absent.
\<close>

definition map_name :: "string \<Rightarrow> string \<Rightarrow> config \<Rightarrow> config" where
  "map_name name loadName config =
     (let m = (case map_js config of None \<Rightarrow> Map.empty | Some m \<Rightarrow> m);
          star = (case m ''*'' of None \<Rightarrow> Map.empty | Some b \<Rightarrow> b)
      in config\<lparr>map_js := Some (m(''*'' \<mapsto> star(name \<mapsto> strip_dot_slash loadName)))\<rparr>)"

text \<open>
  Lines 106-159, the \<^verbatim>\<open>else\<close> branch up to the request: the value of \<^verbatim>\<open>loadName\<close> and
  the configuration object as it is then.
\<close>

definition resolve ::
  "(string \<Rightarrow> string) \<Rightarrow> plugin \<Rightarrow> string \<Rightarrow> ('v, 'r) require \<Rightarrow> config \<Rightarrow> string \<times> config" where
  "resolve render p name req config =
     (if \<not> specified req name then
        (let fingerprint = wrap p (lookup p name) in
         if truthy fingerprint \<and> \<not> defined req name then
           (let url = (if CHR ''!'' \<notin> set name then toUrl req name else name);
                loadName = fingerprinted render p url fingerprint
            in if name \<noteq> loadName then (loadName, map_name name loadName config)
               else (loadName, config))
         else (name, config))
      else (name, config))"

text \<open>
  \<^verbatim>\<open>load\<close> (lines 101-167). The completion callback takes \<^verbatim>\<open>null\<close> (\<open>None\<close>) or a loaded value. The
  result is what the one call made last does, and the configuration object afterwards.
\<close>

definition load ::
  "(string \<Rightarrow> string) \<Rightarrow> plugin \<Rightarrow> string \<Rightarrow> ('v, 'r) require \<Rightarrow> ('v option \<Rightarrow> 'r) \<Rightarrow> config
     \<Rightarrow> 'r \<times> config" where
  "load render p name req onLoad config =
     (if isBuild config then (onLoad None, config)
      else
        (let (loadName, config') = resolve render p name req config
         in (request req [loadName] (\<lambda>value. onLoad (Some value)), config')))"

section \<open>The scope of the general theorems\<close>

text \<open>
  Two conditions on the plugin's variables, which the general theorems about the
  extension match and about the fingerprint of an arbitrary module name take as
  hypotheses. The sample plugins meet both.

  The alternatives of \<^verbatim>\<open>extensionRegex\<close> consist of letters and digits. The code puts
  the extensions into the pattern as they are, so a text such as \<^verbatim>\<open>js+\<close> is read there
  as regular-expression syntax (and \<^verbatim>\<open>(\<close> makes the constructor throw), which the
  literal comparison of \<open>ext_match\<close> does not follow.

  The mapping of fingerprints is unset or a plain object, so that the read of line 111
  finds an own property or one of \<^verbatim>\<open>Object.prototype\<close> and nothing else.
\<close>

definition alphanumeric :: "string \<Rightarrow> bool" where
  "alphanumeric s =
     list_all (\<lambda>c. c \<in> set ''abcdefghijklmnopqrstuvwxyzABCDEFGHIJKLMNOPQRSTUVWXYZ0123456789'') s"

definition literal_extensions :: "plugin \<Rightarrow> bool" where
  "literal_extensions p = list_all alphanumeric (extensionRegex p)"

definition plain_mapping :: "plugin \<Rightarrow> bool" where
  "plain_mapping p =
     (case fingerprints p of JUndefined \<Rightarrow> True | JObj entries \<Rightarrow> True | _ \<Rightarrow> False)"

section \<open>Sample hosts and configurations\<close>

text \<open>
  A host whose calls leave a trace: a request records the names asked for and then
  delivers the value \<^verbatim>\<open>"module"\<close> to its callback; the completion callback records what
  it was given.
\<close>

datatype event = Requested "string list" | Completed "string option"

definition report :: "string option \<Rightarrow> event list" where
  "report v = [Completed v]"

definition deliver :: "string list \<Rightarrow> (string \<Rightarrow> event list) \<Rightarrow> event list" where
  "deliver names callback = Requested names # callback ''module''"

definition never :: "string \<Rightarrow> bool" where
  "never name = False"

definition always :: "string \<Rightarrow> bool" where
  "always name = True"

definition same_path :: "string \<Rightarrow> string" where
  "same_path name = name"

definition versioned_path :: "string \<Rightarrow> string" where
  "versioned_path name = ''/v!/'' @ name"

definition plain_host :: "(string, event list) require" where
  "plain_host = \<lparr>specified = never, defined = never, toUrl = same_path, request = deliver\<rparr>"

definition specified_host :: "(string, event list) require" where
  "specified_host = \<lparr>specified = always, defined = never, toUrl = same_path, request = deliver\<rparr>"

definition defined_host :: "(string, event list) require" where
  "defined_host = \<lparr>specified = never, defined = always, toUrl = same_path, request = deliver\<rparr>"

definition versioned_host :: "(string, event list) require" where
  "versioned_host =
     \<lparr>specified = never, defined = never, toUrl = versioned_path, request = deliver\<rparr>"

definition run_config :: config where
  "run_config = \<lparr>isBuild = False, map_js = None\<rparr>"

definition build_config :: config where
  "build_config = \<lparr>isBuild = True, map_js = None\<rparr>"

text \<open>A spelling of numerals, for the cases in which none is asked for.\<close>

definition as_written :: "string \<Rightarrow> string" where
  "as_written literal = literal"

text \<open>
  The plugin left by a global fingerprint (a configuration that is a non-empty string),
  and by an object with a global fingerprint and some options; the other samples are
  mappings from module names.
\<close>

definition global_plugin :: "string \<Rightarrow> plugin" where
  "global_plugin text =
     \<lparr>defaultFingerprint = JStr text, fingerprints = JUndefined, options = builtin_options,
      extensionRegex = [''js'', ''css'', ''json'']\<rparr>"

definition with_options :: "string \<Rightarrow> (string \<times> jsval) list \<Rightarrow> jsval" where
  "with_options text opts = JObj [(''fingerprint'', JStr text), (''options'', JObj opts)]"

definition before_extension_plugin :: "string \<Rightarrow> string \<Rightarrow> plugin" where
  "before_extension_plugin prefix text =
     \<lparr>defaultFingerprint = JStr text, fingerprints = JUndefined,
      options = JObj [(''mode'', JStr ''beforeExtension''), (''suffix'', JStr []),
                      (''prefix'', JStr prefix), (''defaultExtension'', JStr ''.js''),
                      (''extensions'', JArr [JStr ''js'', JStr ''css'', JStr ''json''])],
      extensionRegex = [''js'', ''css'', ''json'']\<rparr>"

definition bare_plugin :: "string \<Rightarrow> plugin" where
  "bare_plugin text =
     \<lparr>defaultFingerprint = JStr text, fingerprints = JUndefined,
      options = JObj [(''mode'', JStr ''append''), (''suffix'', JStr []),
                      (''prefix'', JStr []), (''defaultExtension'', JStr ''.js''),
                      (''extensions'', JArr [JStr ''js'', JStr ''css'', JStr ''json''])],
      extensionRegex = [''js'', ''css'', ''json'']\<rparr>"

definition mapping_plugin :: "(string \<times> jsval) list \<Rightarrow> jsval \<Rightarrow> plugin" where
  "mapping_plugin entries d =
     \<lparr>defaultFingerprint = d, fingerprints = JObj entries, options = builtin_options,
      extensionRegex = [''js'', ''css'', ''json'']\<rparr>"

section \<open>Facts about the samples and about the branches of \<^verbatim>\<open>load\<close>\<close>

text \<open>The sample plugins are what the factory makes of these configurations.\<close>

lemma factory_global: "factory (JStr ''v=1'') = Inr (global_plugin ''v=1'')"
  by code_simp

lemma factory_global_css: "factory (JStr ''v=7'') = Inr (global_plugin ''v=7'')"
  by code_simp

lemma factory_before_extension:
  "factory (with_options ''.999'' [(''mode'', JStr ''beforeExtension'')])
     = Inr (before_extension_plugin ''?'' ''.999'')"
  by code_simp

lemma factory_before_extension_widget:
  "factory (with_options ''.123'' [(''mode'', JStr ''beforeExtension'')])
     = Inr (before_extension_plugin ''?'' ''.123'')"
  by code_simp

lemma factory_before_extension_bare:
  "factory (with_options ''.999'' [(''mode'', JStr ''beforeExtension''), (''prefix'', JStr [])])
     = Inr (before_extension_plugin [] ''.999'')"
  by code_simp

lemma factory_bare: "factory (with_options ''.123'' [(''prefix'', JStr [])]) = Inr (bare_plugin ''.123'')"
  by code_simp

lemma factory_mapping:
  "factory (JObj [(''a'', JStr ''.1''), (''default'', JStr ''.9'')])
     = Inr (mapping_plugin [(''a'', JStr ''.1''), (''default'', JStr ''.9'')] (JStr ''.9''))"
  by code_simp

lemma factory_mapping_no_default:
  "factory (JObj [(''a'', JStr ''.1'')]) = Inr (mapping_plugin [(''a'', JStr ''.1'')] JUndefined)"
  by code_simp

lemma factory_mapping_empty_default:
  "factory (JObj [(''default'', JStr [])]) = Inr (mapping_plugin [(''default'', JStr [])] JUndefined)"
  by code_simp

lemma factory_mapping_empty_entry:
  "factory (JObj [(''a'', JStr []), (''default'', JStr ''.9'')])
     = Inr (mapping_plugin [(''a'', JStr []), (''default'', JStr ''.9'')] (JStr ''.9''))"
  by code_simp

lemma load_running:
  "\<not> isBuild config \<Longrightarrow>
   load render p name req onLoad config =
     (request req [fst (resolve render p name req config)] (\<lambda>value. onLoad (Some value)),
      snd (resolve render p name req config))"
  by (simp add: load_def split: prod.splits)

lemma resolve_skipped:
  "specified req name \<or> defined req name \<or> \<not> truthy (wrap p (lookup p name)) \<Longrightarrow>
   resolve render p name req config = (name, config)"
  by (auto simp: resolve_def Let_def)

lemma resolve_applied:
  assumes "\<not> specified req name" and "\<not> defined req name"
    and "truthy (wrap p (lookup p name))"
  shows "fst (resolve render p name req config) =
         fingerprinted render p (if CHR ''!'' \<notin> set name then toUrl req name else name)
           (wrap p (lookup p name))"
  using assms by (simp add: resolve_def Let_def)

lemma wrap_falsy: "\<not> truthy fingerprint \<Longrightarrow> wrap p fingerprint = fingerprint"
  by (simp add: wrap_def)

subsection \<open>The branches of the rewriting\<close>

lemma snd_resolve:
  "snd (resolve render p name req config) =
     (if fst (resolve render p name req config) \<noteq> name
      then map_name name (fst (resolve render p name req config)) config else config)"
  by (simp add: resolve_def Let_def)


lemma lookup_nothing:
  assumes "defaultFingerprint p = JUndefined"
    and "\<not> truthy (fingerprints p) \<or> get (fingerprints p) name = JUndefined"
  shows "lookup p name = JUndefined"
  using assms by (auto simp: lookup_def)

lemma fingerprinted_append_match:
  assumes "get (options p) ''mode'' = JStr APPEND"
    and "ext_match (extensionRegex p) url = Some (pre, ext)"
  shows "fingerprinted render p url fingerprint = url @ ToString fingerprint"
  using assms
  by (auto simp: fingerprinted_def APPEND_def BEFORE_EXTENSION_def split: option.splits)

lemma fingerprinted_append_no_match:
  assumes "get (options p) ''mode'' = JStr APPEND"
    and "ext_match (extensionRegex p) url = None"
  shows "fingerprinted render p url fingerprint =
         (if CHR ''!'' \<notin> set url \<and> truthy (get (options p) ''defaultExtension'')
          then url @ ToString (get (options p) ''defaultExtension'') @ ToString fingerprint
          else url @ ToString fingerprint)"
  using assms
  by (simp add: fingerprinted_def APPEND_def BEFORE_EXTENSION_def Let_def)

lemma fingerprinted_before_match:
  assumes "get (options p) ''mode'' = JStr BEFORE_EXTENSION"
    and "ext_match (extensionRegex p) url = Some (pre, ext)"
  shows "fingerprinted render p url fingerprint =
         pre @ number_text render (ToString fingerprint) @ ''.'' @ ext"
  using assms by (simp add: fingerprinted_def)




lemma css_facts:
  "wrap (global_plugin ''v=7'') (lookup (global_plugin ''v=7'') ''styles/app.css'') = JStr ''?v=7''"
  "get (options (global_plugin ''v=7'')) ''mode'' = JStr APPEND"
  "ext_match (extensionRegex (global_plugin ''v=7'')) ''styles/app.css'' = Some (''styles/app'', ''css'')"
  by code_simp+


lemma plain_host_facts:
  "\<not> specified plain_host name" "\<not> defined plain_host name" "toUrl plain_host name = name"
  "request plain_host = deliver"
  by (simp_all add: plain_host_def never_def same_path_def)

lemma versioned_host_facts:
  "\<not> specified versioned_host name" "\<not> defined versioned_host name"
  "toUrl versioned_host name = ''/v!/'' @ name" "request versioned_host = deliver"
  by (simp_all add: versioned_host_def never_def versioned_path_def)

lemma run_config_running: "\<not> isBuild run_config"
  by (simp add: run_config_def)

lemma widget_bare_facts:
  "wrap (bare_plugin ''.123'') (lookup (bare_plugin ''.123'') name) = JStr ''.123''"
  "get (options (bare_plugin ''.123'')) ''mode'' = JStr APPEND"
  "get (options (bare_plugin ''.123'')) ''defaultExtension'' = JStr ''.js''"
  "ext_match (extensionRegex (bare_plugin ''.123'')) ''components/widget'' = None"
  "ext_match (extensionRegex (bare_plugin ''.123'')) ''css!styles/app'' = None"
  by code_simp+

lemma widget_versioned_facts:
  "wrap (global_plugin ''.123'') (lookup (global_plugin ''.123'') name) = JStr ''?.123''"
  "get (options (global_plugin ''.123'')) ''mode'' = JStr APPEND"
  "get (options (global_plugin ''.123'')) ''defaultExtension'' = JStr ''.js''"
  "ext_match (extensionRegex (global_plugin ''.123'')) ''/v!/components/widget'' = None"
  "fst (resolve as_written (global_plugin ''.123'') ''components/widget'' versioned_host run_config)
     = ''/v!/components/widget?.123''"
  by code_simp+

lemma trim_Cons:
  assumes "\<not> is_space c"
  shows "trim (c # s) = c # rev (dropWhile is_space (rev s))"
proof -
  have "dropWhile is_space (rev s @ [c]) = dropWhile is_space (rev s) @ [c]"
    using assms by (induction "rev s" arbitrary: s) (auto simp: dropWhile_append)
  then show ?thesis
    using assms by (simp add: trim_def)
qed

lemma number_text_question_mark: "number_text render (CHR ''?'' # s) = ''NaN''"
proof -
  have sp: "\<not> is_space (CHR ''?'')"
    by (simp add: is_space_def)
  obtain t where t: "trim (CHR ''?'' # s) = CHR ''?'' # t"
    using trim_Cons [OF sp] by blast
  have "\<not> finite_literal (CHR ''?'' # t)"
    by (cases t) (simp_all add: unsigned_decimal_def is_decimal_digit_def)
  with t show ?thesis
    by (simp add: number_text_def)
qed

lemma main_js_facts:
  "get (options (before_extension_plugin prefix ''.999'')) ''mode'' = JStr BEFORE_EXTENSION"
  "ext_match (extensionRegex (before_extension_plugin prefix ''.999'')) ''app/main.js''
     = Some (''app/main'', ''js'')"
  "wrap (before_extension_plugin ''?'' ''.999'') (lookup (before_extension_plugin ''?'' ''.999'') name)
     = JStr ''?.999''"
  "wrap (before_extension_plugin [] ''.999'') (lookup (before_extension_plugin [] ''.999'') name)
     = JStr ''.999''"
  by code_simp+

subsection \<open>The variables the factory leaves\<close>

lemma factory_variables:
  assumes "factory moduleConfig = Inr p"
  shows "typeof moduleConfig = ''object'' \<Longrightarrow> typeof (candidate moduleConfig) = ''string'' \<Longrightarrow>
           defaultFingerprint p = candidate moduleConfig \<and> fingerprints p = JUndefined"
    and "typeof moduleConfig = ''object'' \<Longrightarrow> typeof (candidate moduleConfig) \<noteq> ''string'' \<Longrightarrow>
           fingerprints p = candidate moduleConfig \<and>
           defaultFingerprint p =
             (if truthy (get (candidate moduleConfig) ''default'')
              then get (candidate moduleConfig) ''default'' else JUndefined)"
    and "typeof moduleConfig \<noteq> ''object'' \<Longrightarrow> fingerprints p = JUndefined"
  using assms
  by (auto simp: factory_def Let_def split: if_splits sum.splits)

lemma factory_default:
  assumes "factory moduleConfig = Inr p" and "truthy (fingerprints p)"
  shows "defaultFingerprint p =
           (if truthy (get (fingerprints p) ''default'') then get (fingerprints p) ''default''
            else JUndefined)"
proof (cases "typeof moduleConfig = ''object''")
  case True
  then show ?thesis
    using factory_variables(1,2) [OF assms(1)] assms(2)
    by (cases "typeof (candidate moduleConfig) = ''string''") auto
next
  case False
  then show ?thesis
    using factory_variables(3) [OF assms(1)] assms(2) by simp
qed

subsection \<open>The extension match and the name map\<close>

lemma ext_match_sound:
  "ext_match alts url = Some (pre, ext) \<Longrightarrow> url = pre @ CHR ''.'' # ext \<and> list_ex (same_text ext) alts"
proof (induction url arbitrary: pre)
  case Nil
  then show ?case by simp
next
  case (Cons c cs)
  show ?case
  proof (cases "c = CHR ''.'' \<and> list_ex (same_text cs) alts")
    case True
    with Cons.prems show ?thesis by simp
  next
    case False
    with Cons.prems obtain pre' where "ext_match alts cs = Some (pre', ext)" and "pre = c # pre'"
      by (auto split: option.splits)
    with Cons.IH show ?thesis by simp
  qed
qed

lemma ext_match_complete:
  "list_ex (same_text ext) alts \<Longrightarrow> ext_match alts (pre @ CHR ''.'' # ext) \<noteq> None"
proof (induction pre)
  case Nil
  then show ?case by simp
next
  case (Cons c pre)
  then show ?case by (auto split: option.splits)
qed

lemma map_name_twice: "map_name name loadName (map_name name loadName config) = map_name name loadName config"
  by (simp add: map_name_def Let_def fun_upd_idem_iff)

lemma fst_resolve_config:
  "fst (resolve render p name req config) = fst (resolve render p name req config')"
  by (simp add: resolve_def Let_def)

subsection \<open>The samples and the two conditions\<close>

lemma samples_in_scope:
  "literal_extensions (global_plugin text)" "plain_mapping (global_plugin text)"
  "literal_extensions (before_extension_plugin prefix text)"
  "plain_mapping (before_extension_plugin prefix text)"
  "literal_extensions (bare_plugin text)" "plain_mapping (bare_plugin text)"
  "literal_extensions (mapping_plugin entries d)" "plain_mapping (mapping_plugin entries d)"
  by code_simp+

lemma samples_lookup:
  "lookup (global_plugin text) name = JStr text"
  "lookup (before_extension_plugin prefix text) name = JStr text"
  "lookup (bare_plugin text) name = JStr text"
  by code_simp+

lemma map_written:
  assumes "fst (resolve render p name req config) \<noteq> name"
  shows "map_js (snd (resolve render p name req config)) \<noteq> None"
  using assms by (simp add: snd_resolve map_name_def Let_def)

section \<open>The claims\<close>

text \<open>
  C1. The specification has the fingerprint spliced as it is before a recognized
  extension in \<^verbatim>\<open>beforeExtension\<close> mode, and so has the comment in the code. The code
  does something else: its replacement text is \<^verbatim>\<open>+fingerprint + '.$1'\<close>, and the unary
  plus turns the fingerprint into a number first. With the configuration
  \<^verbatim>\<open>{fingerprint: '.999', options: {mode: 'beforeExtension'}}\<close> the fingerprint with
  its built-in prefix is \<^verbatim>\<open>?.999\<close>, which is not a numeric literal, and
  \<^verbatim>\<open>app/main.js\<close> is loaded as \<^verbatim>\<open>app/mainNaN.js\<close>, whatever the engine's spelling
  of numbers, not as \<^verbatim>\<open>app/main?.999.js\<close>.
\<close>

theorem load_before_extension_coerces:
  "get (options (before_extension_plugin ''?'' ''.999'')) ''mode'' = JStr BEFORE_EXTENSION \<and>
   ext_match (extensionRegex (before_extension_plugin ''?'' ''.999'')) ''app/main.js''
     = Some (''app/main'', ''js'') \<and>
   wrap (before_extension_plugin ''?'' ''.999'') (lookup (before_extension_plugin ''?'' ''.999'') ''app/main.js'')
     = JStr ''?.999'' \<and>
   fst (resolve render (before_extension_plugin ''?'' ''.999'') ''app/main.js'' plain_host run_config)
     = ''app/mainNaN.js'' \<and>
   fst (load render (before_extension_plugin ''?'' ''.999'') ''app/main.js'' plain_host report run_config)
     = [Requested [''app/mainNaN.js''], Completed (Some ''module'')]"
proof -
  let ?p = "before_extension_plugin ''?'' ''.999''"
  have a: "fst (resolve render ?p ''app/main.js'' plain_host run_config) = ''app/mainNaN.js''"
    by code_simp
  have b: "fst (load render ?p ''app/main.js'' plain_host report run_config)
           = [Requested [''app/mainNaN.js''], Completed (Some ''module'')]"
    by (simp add: load_running run_config_running a plain_host_facts deliver_def report_def)
  show ?thesis
    by (intro conjI) (rule main_js_facts a b)+
qed




text \<open>
  C3. For a configuration that is an object, the candidate is \<^verbatim>\<open>fingerprint\<close>, else
  \<^verbatim>\<open>fingerprints\<close>, else the object itself, and so is the default taken from the
  candidate's \<^verbatim>\<open>default\<close> entry, but both steps test truthiness, not presence: an
  empty string is passed over. With \<^verbatim>\<open>{fingerprint: '', fingerprints: {a: '.1', default: ''}}\<close>
  the string \<^verbatim>\<open>fingerprint\<close> is present and yet the mapping is in use (the module
  \<^verbatim>\<open>a\<close> is loaded as \<^verbatim>\<open>a.js?.1\<close>), and the mapping has a \<^verbatim>\<open>default\<close> key and
  yet the default fingerprint stays \<^verbatim>\<open>undefined\<close>. What holds is: the candidate is the
  first truthy one of \<^verbatim>\<open>fingerprint\<close> and \<^verbatim>\<open>fingerprints\<close>, else the object; a string
  candidate becomes the default fingerprint and no mapping is set; any other candidate
  becomes the mapping, and its \<^verbatim>\<open>default\<close> entry becomes the default fingerprint when
  it is truthy, the default staying unset when it is not.
\<close>

theorem factory_object:
  assumes "typeof moduleConfig = ''object''" and "factory moduleConfig = Inr p"
    and "c = (if truthy (get moduleConfig ''fingerprint'') then get moduleConfig ''fingerprint''
              else if truthy (get moduleConfig ''fingerprints'') then get moduleConfig ''fingerprints''
              else moduleConfig)"
  shows "if typeof c = ''string''
         then defaultFingerprint p = c \<and> fingerprints p = JUndefined
         else fingerprints p = c \<and>
              defaultFingerprint p =
                (if truthy (get c ''default'') then get c ''default'' else JUndefined)"
proof -
  have "c = candidate moduleConfig"
    using assms(3) by (simp add: candidate_def)
  then show ?thesis
    using factory_variables(1,2) [OF assms(2) assms(1)] by simp
qed

theorem factory_object_witness:
  "typeof (JObj [(''a'', JStr ''.1''), (''default'', JStr ''.9'')]) = ''object'' \<and>
   factory (JObj [(''a'', JStr ''.1''), (''default'', JStr ''.9'')])
     = Inr (mapping_plugin [(''a'', JStr ''.1''), (''default'', JStr ''.9'')] (JStr ''.9'')) \<and>
   fingerprints (mapping_plugin [(''a'', JStr ''.1''), (''default'', JStr ''.9'')] (JStr ''.9''))
     = JObj [(''a'', JStr ''.1''), (''default'', JStr ''.9'')] \<and>
   defaultFingerprint (mapping_plugin [(''a'', JStr ''.1''), (''default'', JStr ''.9'')] (JStr ''.9''))
     = JStr ''.9'' \<and>
   typeof (with_options ''.999'' [(''mode'', JStr ''beforeExtension'')]) = ''object'' \<and>
   factory (with_options ''.999'' [(''mode'', JStr ''beforeExtension'')])
     = Inr (before_extension_plugin ''?'' ''.999'') \<and>
   defaultFingerprint (before_extension_plugin ''?'' ''.999'') = JStr ''.999'' \<and>
   fingerprints (before_extension_plugin ''?'' ''.999'') = JUndefined"
proof -
  let ?m = "JObj [(''a'', JStr ''.1''), (''default'', JStr ''.9'')]"
  let ?o = "with_options ''.999'' [(''mode'', JStr ''beforeExtension'')]"
  have t: "typeof ?m = ''object''" "typeof ?o = ''object''"
    by (simp_all add: with_options_def)
  have c: "?m = (if truthy (get ?m ''fingerprint'') then get ?m ''fingerprint''
                 else if truthy (get ?m ''fingerprints'') then get ?m ''fingerprints'' else ?m)"
    by code_simp
  have d: "JStr ''.999'' = (if truthy (get ?o ''fingerprint'') then get ?o ''fingerprint''
                 else if truthy (get ?o ''fingerprints'') then get ?o ''fingerprints'' else ?o)"
    by code_simp
  have m: "fingerprints (mapping_plugin [(''a'', JStr ''.1''), (''default'', JStr ''.9'')] (JStr ''.9'')) = ?m"
    "defaultFingerprint (mapping_plugin [(''a'', JStr ''.1''), (''default'', JStr ''.9'')] (JStr ''.9''))
       = JStr ''.9''"
    using factory_object [OF t(1) factory_mapping c] by simp_all
  have s: "defaultFingerprint (before_extension_plugin ''?'' ''.999'') = JStr ''.999''"
    "fingerprints (before_extension_plugin ''?'' ''.999'') = JUndefined"
    using factory_object [OF t(2) factory_before_extension d] by simp_all
  show ?thesis
    by (intro conjI) (rule t factory_mapping factory_before_extension m s)+
qed

theorem factory_empty_strings:
  "typeof (JObj [(''fingerprint'', JStr []),
                 (''fingerprints'', JObj [(''a'', JStr ''.1''), (''default'', JStr [])])]) = ''object'' \<and>
   get (JObj [(''fingerprint'', JStr []),
              (''fingerprints'', JObj [(''a'', JStr ''.1''), (''default'', JStr [])])]) ''fingerprint''
     = JStr [] \<and>
   factory (JObj [(''fingerprint'', JStr []),
                  (''fingerprints'', JObj [(''a'', JStr ''.1''), (''default'', JStr [])])])
     = Inr (mapping_plugin [(''a'', JStr ''.1''), (''default'', JStr [])] JUndefined) \<and>
   fingerprints (mapping_plugin [(''a'', JStr ''.1''), (''default'', JStr [])] JUndefined)
     = JObj [(''a'', JStr ''.1''), (''default'', JStr [])] \<and>
   get (fingerprints (mapping_plugin [(''a'', JStr ''.1''), (''default'', JStr [])] JUndefined)) ''default''
     = JStr [] \<and>
   defaultFingerprint (mapping_plugin [(''a'', JStr ''.1''), (''default'', JStr [])] JUndefined)
     = JUndefined \<and>
   defaultFingerprint (mapping_plugin [(''a'', JStr ''.1''), (''default'', JStr [])] JUndefined)
     \<noteq> get (fingerprints (mapping_plugin [(''a'', JStr ''.1''), (''default'', JStr [])] JUndefined))
         ''default'' \<and>
   fst (load as_written (mapping_plugin [(''a'', JStr ''.1''), (''default'', JStr [])] JUndefined) ''a''
          plain_host report run_config)
     = [Requested [''a.js?.1''], Completed (Some ''module'')]"
proof -
  let ?c = "JObj [(''fingerprint'', JStr []),
                  (''fingerprints'', JObj [(''a'', JStr ''.1''), (''default'', JStr [])])]"
  let ?p = "mapping_plugin [(''a'', JStr ''.1''), (''default'', JStr [])] JUndefined"
  have a: "typeof ?c = ''object''" "get ?c ''fingerprint'' = JStr []"
    by simp_all
  have b: "factory ?c = Inr ?p"
    by code_simp
  have c: "fingerprints ?p = JObj [(''a'', JStr ''.1''), (''default'', JStr [])]"
    "get (fingerprints ?p) ''default'' = JStr []" "defaultFingerprint ?p = JUndefined"
    "defaultFingerprint ?p \<noteq> get (fingerprints ?p) ''default''"
    by (simp_all add: mapping_plugin_def)
  have d: "fst (resolve as_written ?p ''a'' plain_host run_config) = ''a.js?.1''"
    by code_simp
  have e: "fst (load as_written ?p ''a'' plain_host report run_config)
           = [Requested [''a.js?.1''], Completed (Some ''module'')]"
    by (simp add: load_running run_config_running d plain_host_facts deliver_def report_def)
  show ?thesis
    by (intro conjI) (rule a b c e)+
qed

text \<open>
  C4. The specification, like the comment above line 82 (a fingerprint that is not
  found for the module falls back to the default one), has the lookup of a name without
  an entry give the default: for \<^verbatim>\<open>{a: '.1', default: '.9'}\<close> any unmapped name yields
  \<^verbatim>\<open>.9\<close>. The code reads \<^verbatim>\<open>fingerprints[name]\<close> without asking whether the property is
  the mapping's own, so a module called \<^verbatim>\<open>constructor\<close> (or \<^verbatim>\<open>toString\<close>, or any other
  name of \<^verbatim>\<open>Object.prototype\<close>) finds a function there: its fingerprint is that
  function, not \<^verbatim>\<open>.9\<close>, and it is not loaded as \<^verbatim>\<open>constructor.js?.9\<close>. The names
  \<^verbatim>\<open>a\<close> and \<^verbatim>\<open>b\<close> get \<^verbatim>\<open>.1\<close> and \<^verbatim>\<open>.9\<close>.
\<close>

theorem lookup_inherited_name:
  "factory (JObj [(''a'', JStr ''.1''), (''default'', JStr ''.9'')])
     = Inr (mapping_plugin [(''a'', JStr ''.1''), (''default'', JStr ''.9'')] (JStr ''.9'')) \<and>
   own_keys (fingerprints (mapping_plugin [(''a'', JStr ''.1''), (''default'', JStr ''.9'')] (JStr ''.9'')))
     = [''a'', ''default''] \<and>
   lookup (mapping_plugin [(''a'', JStr ''.1''), (''default'', JStr ''.9'')] (JStr ''.9'')) ''a''
     = JStr ''.1'' \<and>
   lookup (mapping_plugin [(''a'', JStr ''.1''), (''default'', JStr ''.9'')] (JStr ''.9'')) ''b''
     = JStr ''.9'' \<and>
   typeof (lookup (mapping_plugin [(''a'', JStr ''.1''), (''default'', JStr ''.9'')] (JStr ''.9''))
             ''constructor'') = ''function'' \<and>
   lookup (mapping_plugin [(''a'', JStr ''.1''), (''default'', JStr ''.9'')] (JStr ''.9'')) ''constructor''
     \<noteq> JStr ''.9'' \<and>
   fst (resolve render (mapping_plugin [(''a'', JStr ''.1''), (''default'', JStr ''.9'')] (JStr ''.9''))
          ''b'' plain_host run_config) = ''b.js?.9'' \<and>
   fst (resolve render (mapping_plugin [(''a'', JStr ''.1''), (''default'', JStr ''.9'')] (JStr ''.9''))
          ''constructor'' plain_host run_config) \<noteq> ''constructor.js?.9''"
proof -
  let ?p = "mapping_plugin [(''a'', JStr ''.1''), (''default'', JStr ''.9'')] (JStr ''.9'')"
  have a: "own_keys (fingerprints ?p) = [''a'', ''default'']"
    "lookup ?p ''a'' = JStr ''.1''" "lookup ?p ''b'' = JStr ''.9''"
    "typeof (lookup ?p ''constructor'') = ''function''"
    "lookup ?p ''constructor'' \<noteq> JStr ''.9''"
    "fst (resolve render ?p ''b'' plain_host run_config) = ''b.js?.9''"
    "fst (resolve render ?p ''constructor'' plain_host run_config) \<noteq> ''constructor.js?.9''"
    by code_simp+
  show ?thesis
    by (intro conjI) (rule factory_mapping a)+
qed

text \<open>
  C5. In \<^verbatim>\<open>append\<close> mode, when the call is not a build call, the name is neither specified
  nor defined, the wrapped fingerprint is truthy (an effective fingerprint exists) and
  the URL ends in a recognized extension, the load name is the URL followed by the
  fingerprint, and that is the name requested from the host. For the URL
  \<^verbatim>\<open>styles/app.css\<close> and the fingerprint \<^verbatim>\<open>?v=7\<close> it is \<^verbatim>\<open>styles/app.css?v=7\<close>. The
  fingerprint is a text found in a plain mapping or as the default, and the extensions
  are of letters and digits, as \<^verbatim>\<open>js\<close>, \<^verbatim>\<open>css\<close> and \<^verbatim>\<open>json\<close> are.
\<close>

theorem load_append_recognized:
  assumes "\<not> isBuild config" and "\<not> specified req name" and "\<not> defined req name"
    and "plain_mapping p" and "lookup p name = JStr text"
    and "fingerprint = wrap p (JStr text)" and "truthy fingerprint"
    and "url = (if CHR ''!'' \<notin> set name then toUrl req name else name)"
    and "get (options p) ''mode'' = JStr APPEND"
    and "literal_extensions p" and "ext_match (extensionRegex p) url = Some (pre, ext)"
  shows "fst (resolve render p name req config) = url @ ToString fingerprint \<and>
         fst (load render p name req onLoad config) =
           request req [url @ ToString fingerprint] (\<lambda>value. onLoad (Some value))"
proof -
  have "fst (resolve render p name req config) = fingerprinted render p url fingerprint"
    using assms(2,3,5-8) by (simp add: resolve_applied)
  also have "\<dots> = url @ ToString fingerprint"
    using assms(9,11) by (rule fingerprinted_append_match)
  finally show ?thesis
    using assms(1) by (simp add: load_running)
qed

theorem load_append_recognized_witness:
  "\<not> isBuild run_config \<and> \<not> specified plain_host ''styles/app.css'' \<and>
   \<not> defined plain_host ''styles/app.css'' \<and>
   plain_mapping (global_plugin ''v=7'') \<and>
   lookup (global_plugin ''v=7'') ''styles/app.css'' = JStr ''v=7'' \<and>
   wrap (global_plugin ''v=7'') (JStr ''v=7'') = JStr ''?v=7'' \<and>
   toUrl plain_host ''styles/app.css'' = ''styles/app.css'' \<and>
   get (options (global_plugin ''v=7'')) ''mode'' = JStr APPEND \<and>
   literal_extensions (global_plugin ''v=7'') \<and>
   ext_match (extensionRegex (global_plugin ''v=7'')) ''styles/app.css''
     = Some (''styles/app'', ''css'') \<and>
   fst (load as_written (global_plugin ''v=7'') ''styles/app.css'' plain_host report run_config)
     = [Requested [''styles/app.css?v=7''], Completed (Some ''module'')]"
proof -
  let ?p = "global_plugin ''v=7''"
  have v: "wrap ?p (JStr ''v=7'') = JStr ''?v=7''"
    by code_simp
  have w: "JStr ''?v=7'' = wrap ?p (JStr ''v=7'')"
    by (simp add: v)
  have t: "truthy (JStr ''?v=7'')"
    by simp
  have u: "''styles/app.css''
           = (if CHR ''!'' \<notin> set ''styles/app.css'' then toUrl plain_host ''styles/app.css''
              else ''styles/app.css'')"
    by (simp add: plain_host_facts)
  have c: "fst (load as_written ?p ''styles/app.css'' plain_host report run_config)
           = [Requested [''styles/app.css?v=7''], Completed (Some ''module'')]"
    using load_append_recognized [OF run_config_running plain_host_facts(1,2) samples_in_scope(2)
        samples_lookup(1) w t u css_facts(2) samples_in_scope(1) css_facts(3), of as_written report]
    by (simp add: plain_host_facts deliver_def report_def)
  show ?thesis
    by (intro conjI)
      (rule run_config_running plain_host_facts samples_in_scope samples_lookup v css_facts c)+
qed

text \<open>
  C6. The specification has the default extension added, in \<^verbatim>\<open>append\<close> mode and for
  a URL without a recognized extension, when the name has no \<^verbatim>\<open>!\<close>; so have the
  comment of line 139 (the extension is left out when another plugin is addressed, as in
  \<^verbatim>\<open>css!\<close>) and the test of line 123, which looks for the \<^verbatim>\<open>!\<close> in the name. Line 140
  looks for it in the URL instead. With a host that resolves \<^verbatim>\<open>components/widget\<close> to
  \<^verbatim>\<open>/v!/components/widget\<close> (a base URL with a \<^verbatim>\<open>!\<close> in it) the name has no \<^verbatim>\<open>!\<close>,
  the default extension is \<^verbatim>\<open>.js\<close>, and the module is loaded as
  \<^verbatim>\<open>/v!/components/widget?.123\<close>, without the extension.
\<close>

theorem load_append_tests_the_url:
  "\<not> isBuild run_config \<and> \<not> specified versioned_host ''components/widget'' \<and>
   \<not> defined versioned_host ''components/widget'' \<and>
   CHR ''!'' \<notin> set ''components/widget'' \<and>
   get (options (global_plugin ''.123'')) ''mode'' = JStr APPEND \<and>
   get (options (global_plugin ''.123'')) ''defaultExtension'' = JStr ''.js'' \<and>
   wrap (global_plugin ''.123'') (lookup (global_plugin ''.123'') ''components/widget'') = JStr ''?.123'' \<and>
   toUrl versioned_host ''components/widget'' = ''/v!/components/widget'' \<and>
   ext_match (extensionRegex (global_plugin ''.123'')) ''/v!/components/widget'' = None \<and>
   fst (resolve as_written (global_plugin ''.123'') ''components/widget'' versioned_host run_config)
     = ''/v!/components/widget?.123'' \<and>
   fst (resolve as_written (global_plugin ''.123'') ''components/widget'' versioned_host run_config)
     \<noteq> toUrl versioned_host ''components/widget'' @ ''.js'' @ ''?.123''"
proof -
  have a: "CHR ''!'' \<notin> set ''components/widget''"
    by simp
  have b: "toUrl versioned_host ''components/widget'' = ''/v!/components/widget''"
    by (simp add: versioned_host_facts)
  have c: "fst (resolve as_written (global_plugin ''.123'') ''components/widget'' versioned_host
             run_config) \<noteq> toUrl versioned_host ''components/widget'' @ ''.js'' @ ''?.123''"
    by (simp add: widget_versioned_facts(5) versioned_host_facts)
  show ?thesis
    by (intro conjI) (rule run_config_running versioned_host_facts widget_versioned_facts a b c)+
qed



text \<open>
  C8. The specification has a load without rewriting whenever no fingerprint resolves
  (no default and no entry for the name), as the comment of line 120 has the
  fingerprint applied if it is configured. With the configuration \<^verbatim>\<open>{a: '.1'}\<close> there
  is no default and no entry for \<^verbatim>\<open>constructor\<close>, and yet the code rewrites a load of
  that name: line 111 finds the function \<^verbatim>\<open>Object.prototype.constructor\<close> under it,
  takes it for the fingerprint, requests a load name made of the URL, \<^verbatim>\<open>.js?\<close> and the
  function's text, and writes a name-map entry. A name that is specified or defined is
  loaded as it is.
\<close>

theorem load_inherited_name:
  "\<not> isBuild run_config \<and> \<not> specified plain_host ''constructor'' \<and>
   \<not> defined plain_host ''constructor'' \<and>
   factory (JObj [(''a'', JStr ''.1'')]) = Inr (mapping_plugin [(''a'', JStr ''.1'')] JUndefined) \<and>
   defaultFingerprint (mapping_plugin [(''a'', JStr ''.1'')] JUndefined) = JUndefined \<and>
   own_keys (fingerprints (mapping_plugin [(''a'', JStr ''.1'')] JUndefined)) = [''a''] \<and>
   typeof (lookup (mapping_plugin [(''a'', JStr ''.1'')] JUndefined) ''constructor'') = ''function'' \<and>
   fst (resolve render (mapping_plugin [(''a'', JStr ''.1'')] JUndefined) ''constructor'' plain_host
          run_config) \<noteq> ''constructor'' \<and>
   map_js (snd (resolve render (mapping_plugin [(''a'', JStr ''.1'')] JUndefined) ''constructor''
                  plain_host run_config)) \<noteq> None \<and>
   fst (load render (mapping_plugin [(''a'', JStr ''.1'')] JUndefined) ''constructor'' plain_host report
          run_config) \<noteq> [Requested [''constructor''], Completed (Some ''module'')]"
proof -
  let ?p = "mapping_plugin [(''a'', JStr ''.1'')] JUndefined"
  have a: "defaultFingerprint ?p = JUndefined" "own_keys (fingerprints ?p) = [''a'']"
    "typeof (lookup ?p ''constructor'') = ''function''"
    "fst (resolve render ?p ''constructor'' plain_host run_config) \<noteq> ''constructor''"
    by code_simp+
  have b: "map_js (snd (resolve render ?p ''constructor'' plain_host run_config)) \<noteq> None"
    using a(4) by (rule map_written)
  have c: "fst (load render ?p ''constructor'' plain_host report run_config)
           \<noteq> [Requested [''constructor''], Completed (Some ''module'')]"
    using a(4) by (simp add: load_running run_config_running plain_host_facts deliver_def report_def)
  show ?thesis
    by (intro conjI)
      (rule run_config_running plain_host_facts factory_mapping_no_default a b c)+
qed

text \<open>
  C9. When the call context has the build flag set, \<^verbatim>\<open>load\<close> does one thing: it calls the
  completion callback with \<^verbatim>\<open>null\<close>. The configuration object is returned as it was, so
  no name is mapped; the result mentions neither the host's request nor its queries
  nor the plugin's variables, so no module is requested, no URL computed and no
  fingerprint looked up.
\<close>

theorem load_build:
  assumes "isBuild config"
  shows "load render p name req onLoad config = (onLoad None, config)"
  using assms by (simp add: load_def)

theorem load_build_witness:
  "isBuild build_config \<and>
   load as_written (global_plugin ''v=1'') ''app/main.js'' plain_host report build_config
     = ([Completed None], build_config)"
proof -
  have b: "isBuild build_config"
    by (simp add: build_config_def)
  show ?thesis
    using b load_build [OF b, of as_written "global_plugin ''v=1''" "''app/main.js''" plain_host report]
    by (simp add: report_def)
qed

text \<open>
  C10. When the mapping holds the empty string for a name, a load of that name applies
  no fingerprint, whatever the default is: the entry is found because it is not
  \<^verbatim>\<open>undefined\<close>, it is falsy, so the prefix and the suffix are not put around it, the
  load name is the logical name and the configuration object is unchanged.
\<close>

theorem empty_entry_opts_out:
  assumes "\<not> isBuild config"
    and "truthy (fingerprints p)"
    and "get (fingerprints p) name = JStr []"
  shows "lookup p name = JStr [] \<and> wrap p (lookup p name) = JStr [] \<and>
         resolve render p name req config = (name, config) \<and>
         load render p name req onLoad config =
           (request req [name] (\<lambda>value. onLoad (Some value)), config)"
proof -
  have l: "lookup p name = JStr []"
    using assms(2,3) by (simp add: lookup_def)
  then have w: "wrap p (lookup p name) = JStr []"
    by (simp add: wrap_falsy)
  then have "resolve render p name req config = (name, config)"
    by (simp add: resolve_skipped)
  with assms(1) l w show ?thesis
    by (simp add: load_running)
qed

theorem empty_entry_opts_out_witness:
  "\<not> isBuild run_config \<and>
   truthy (fingerprints (mapping_plugin [(''a'', JStr []), (''default'', JStr ''.9'')] (JStr ''.9''))) \<and>
   get (fingerprints (mapping_plugin [(''a'', JStr []), (''default'', JStr ''.9'')] (JStr ''.9''))) ''a''
     = JStr [] \<and>
   defaultFingerprint (mapping_plugin [(''a'', JStr []), (''default'', JStr ''.9'')] (JStr ''.9''))
     = JStr ''.9'' \<and>
   lookup (mapping_plugin [(''a'', JStr []), (''default'', JStr ''.9'')] (JStr ''.9'')) ''a'' = JStr [] \<and>
   load as_written (mapping_plugin [(''a'', JStr []), (''default'', JStr ''.9'')] (JStr ''.9''))
     ''a'' plain_host report run_config
     = ([Requested [''a''], Completed (Some ''module'')], run_config)"
proof -
  let ?p = "mapping_plugin [(''a'', JStr []), (''default'', JStr ''.9'')] (JStr ''.9'')"
  have run: "\<not> isBuild run_config"
    by (simp add: run_config_def)
  have m: "truthy (fingerprints ?p)"
    by (simp add: mapping_plugin_def)
  have e: "get (fingerprints ?p) ''a'' = JStr []"
    by (simp add: mapping_plugin_def)
  have d: "defaultFingerprint ?p = JStr ''.9''"
    by (simp add: mapping_plugin_def)
  have t: "request plain_host = deliver"
    by (simp add: plain_host_def)
  show ?thesis
    using run m e d empty_entry_opts_out [OF run m e, of as_written plain_host report]
    by (simp add: t deliver_def report_def)
qed

section \<open>Further properties of the code\<close>

text \<open>
  What \<^verbatim>\<open>beforeExtension\<close> mode does before a recognized extension: the text spliced
  in is the number the fingerprint converts to, followed by a dot and the extension as
  the URL spells it. A fingerprint that is a numeral in the engine's own spelling, such
  as \<^verbatim>\<open>123\<close> with an empty prefix, is spliced as it is.
\<close>

theorem load_before_extension_recognized:
  assumes "\<not> isBuild config" and "\<not> specified req name" and "\<not> defined req name"
    and "plain_mapping p" and "lookup p name = JStr text"
    and "fingerprint = wrap p (JStr text)" and "truthy fingerprint"
    and "url = (if CHR ''!'' \<notin> set name then toUrl req name else name)"
    and "get (options p) ''mode'' = JStr BEFORE_EXTENSION"
    and "literal_extensions p" and "ext_match (extensionRegex p) url = Some (pre, ext)"
  shows "fst (resolve render p name req config) =
           pre @ number_text render (ToString fingerprint) @ ''.'' @ ext"
proof -
  have "fst (resolve render p name req config) = fingerprinted render p url fingerprint"
    using assms(2,3,5-8) by (simp add: resolve_applied)
  then show ?thesis
    using fingerprinted_before_match [OF assms(9,11), of render fingerprint] by simp
qed

theorem load_before_extension_recognized_witness:
  "\<not> isBuild run_config \<and> \<not> specified plain_host ''app/main.js'' \<and>
   \<not> defined plain_host ''app/main.js'' \<and>
   plain_mapping (before_extension_plugin [] ''123'') \<and>
   lookup (before_extension_plugin [] ''123'') ''app/main.js'' = JStr ''123'' \<and>
   wrap (before_extension_plugin [] ''123'') (JStr ''123'') = JStr ''123'' \<and>
   toUrl plain_host ''app/main.js'' = ''app/main.js'' \<and>
   get (options (before_extension_plugin [] ''123'')) ''mode'' = JStr BEFORE_EXTENSION \<and>
   literal_extensions (before_extension_plugin [] ''123'') \<and>
   ext_match (extensionRegex (before_extension_plugin [] ''123'')) ''app/main.js''
     = Some (''app/main'', ''js'') \<and>
   fst (resolve as_written (before_extension_plugin [] ''123'') ''app/main.js'' plain_host run_config)
     = ''app/main123.js''"
proof -
  let ?p = "before_extension_plugin [] ''123''"
  have f: "wrap ?p (JStr ''123'') = JStr ''123''"
    "get (options ?p) ''mode'' = JStr BEFORE_EXTENSION"
    "ext_match (extensionRegex ?p) ''app/main.js'' = Some (''app/main'', ''js'')"
    "number_text as_written ''123'' = ''123''"
    by code_simp+
  have w: "JStr ''123'' = wrap ?p (JStr ''123'')"
    by (simp add: f)
  have t: "truthy (JStr ''123'')"
    by simp
  have u: "''app/main.js''
           = (if CHR ''!'' \<notin> set ''app/main.js'' then toUrl plain_host ''app/main.js''
              else ''app/main.js'')"
    by (simp add: plain_host_facts)
  have c: "fst (resolve as_written ?p ''app/main.js'' plain_host run_config) = ''app/main123.js''"
    using load_before_extension_recognized [OF run_config_running plain_host_facts(1,2)
        samples_in_scope(4) samples_lookup(2) w t u f(2) samples_in_scope(3) f(3), of as_written]
    by (simp add: f(4))
  show ?thesis
    by (intro conjI)
      (rule run_config_running plain_host_facts samples_in_scope samples_lookup f c)+
qed

text \<open>
  With the built-in prefix \<^verbatim>\<open>?\<close> the wrapped fingerprint starts with a question mark
  and is never a numeric literal: in \<^verbatim>\<open>beforeExtension\<close> mode every URL with a
  recognized extension gets \<^verbatim>\<open>NaN\<close> before the extension, whatever the fingerprint.
\<close>

theorem load_before_extension_default_prefix:
  assumes "\<not> isBuild config" and "\<not> specified req name" and "\<not> defined req name"
    and "plain_mapping p" and "truthy (wrap p (lookup p name))"
    and "url = (if CHR ''!'' \<notin> set name then toUrl req name else name)"
    and "get (options p) ''mode'' = JStr BEFORE_EXTENSION"
    and "get (options p) ''prefix'' = JStr ''?''"
    and "literal_extensions p" and "ext_match (extensionRegex p) url = Some (pre, ext)"
  shows "fst (resolve render p name req config) = pre @ ''NaN.'' @ ext"
proof -
  have "truthy (lookup p name)"
    using assms(5) wrap_falsy [of "lookup p name" p] by (cases "truthy (lookup p name)") simp_all
  then have "ToString (wrap p (lookup p name))
             = CHR ''?'' # ToString (lookup p name) @ ToString (get (options p) ''suffix'')"
    using assms(8) by (simp add: wrap_def)
  then have "number_text render (ToString (wrap p (lookup p name))) = ''NaN''"
    by (simp add: number_text_question_mark)
  moreover have "fst (resolve render p name req config) =
      pre @ number_text render (ToString (wrap p (lookup p name))) @ ''.'' @ ext"
    using assms(2,3,5,6) fingerprinted_before_match [OF assms(7,10)] by (simp add: resolve_applied)
  ultimately show ?thesis
    by simp
qed

theorem load_before_extension_default_prefix_witness:
  "\<not> isBuild run_config \<and> \<not> specified plain_host ''app/main.js'' \<and>
   \<not> defined plain_host ''app/main.js'' \<and>
   plain_mapping (before_extension_plugin ''?'' ''.999'') \<and>
   truthy (wrap (before_extension_plugin ''?'' ''.999'')
             (lookup (before_extension_plugin ''?'' ''.999'') ''app/main.js'')) \<and>
   toUrl plain_host ''app/main.js'' = ''app/main.js'' \<and>
   get (options (before_extension_plugin ''?'' ''.999'')) ''mode'' = JStr BEFORE_EXTENSION \<and>
   get (options (before_extension_plugin ''?'' ''.999'')) ''prefix'' = JStr ''?'' \<and>
   literal_extensions (before_extension_plugin ''?'' ''.999'') \<and>
   ext_match (extensionRegex (before_extension_plugin ''?'' ''.999'')) ''app/main.js''
     = Some (''app/main'', ''js'') \<and>
   fst (resolve as_written (before_extension_plugin ''?'' ''.999'') ''app/main.js'' plain_host run_config)
     = ''app/mainNaN.js''"
proof -
  let ?p = "before_extension_plugin ''?'' ''.999''"
  have t: "truthy (wrap ?p (lookup ?p ''app/main.js''))"
    by (simp add: main_js_facts)
  have x: "get (options ?p) ''prefix'' = JStr ''?''"
    by code_simp
  have u: "''app/main.js''
           = (if CHR ''!'' \<notin> set ''app/main.js'' then toUrl plain_host ''app/main.js''
              else ''app/main.js'')"
    by (simp add: plain_host_facts)
  have c: "fst (resolve as_written ?p ''app/main.js'' plain_host run_config) = ''app/mainNaN.js''"
    using load_before_extension_default_prefix [OF run_config_running plain_host_facts(1,2)
        samples_in_scope(4) t u main_js_facts(1) x samples_in_scope(3) main_js_facts(2),
        of as_written]
    by simp
  show ?thesis
    by (intro conjI)
      (rule run_config_running plain_host_facts samples_in_scope main_js_facts t x c)+
qed

text \<open>
  The match of \<^verbatim>\<open>extensionRegex\<close>, for alternatives of letters and digits, succeeds
  exactly on the texts that end in a dot followed by one of the alternatives, in any mix
  of upper and lower case.
\<close>

theorem ext_match_recognizes:
  assumes "list_all alphanumeric alts"
  shows "(ext_match alts url \<noteq> None) =
         (\<exists>pre ext. url = pre @ CHR ''.'' # ext \<and> list_ex (same_text ext) alts)"
proof
  assume "ext_match alts url \<noteq> None"
  then obtain pre ext where "ext_match alts url = Some (pre, ext)"
    by auto
  then show "\<exists>pre ext. url = pre @ CHR ''.'' # ext \<and> list_ex (same_text ext) alts"
    using ext_match_sound by blast
next
  assume "\<exists>pre ext. url = pre @ CHR ''.'' # ext \<and> list_ex (same_text ext) alts"
  then show "ext_match alts url \<noteq> None"
    using ext_match_complete by blast
qed

theorem ext_match_recognizes_witness:
  "list_all alphanumeric [''js'', ''css'', ''json''] \<and>
   ext_match [''js'', ''css'', ''json''] ''data/table.JSON'' = Some (''data/table'', ''JSON'') \<and>
   (\<exists>pre ext. ''data/table.JSON'' = pre @ CHR ''.'' # ext \<and>
      list_ex (same_text ext) [''js'', ''css'', ''json''])"
proof -
  have a: "list_all alphanumeric [''js'', ''css'', ''json'']"
    by code_simp
  have m: "ext_match [''js'', ''css'', ''json''] ''data/table.JSON'' = Some (''data/table'', ''JSON'')"
    by code_simp
  then have "ext_match [''js'', ''css'', ''json''] ''data/table.JSON'' \<noteq> None"
    by (simp only: option.distinct not_False_eq_True)
  then have e: "\<exists>pre ext. ''data/table.JSON'' = pre @ CHR ''.'' # ext \<and>
      list_ex (same_text ext) [''js'', ''css'', ''json'']"
    by (simp only: ext_match_recognizes [OF a])
  show ?thesis
    by (intro conjI) (rule a m e)+
qed

text \<open>
  What \<^verbatim>\<open>append\<close> mode does when the URL does not end in a recognized extension: the
  load name is the URL, the default extension and the fingerprint when the URL has no
  \<^verbatim>\<open>!\<close> and the default extension is not empty, and the URL followed by the fingerprint
  otherwise; a name with \<^verbatim>\<open>!\<close> is its own URL, so it never gets the default extension.
  The name \<^verbatim>\<open>components/widget\<close>, resolved to itself, with the fingerprint \<^verbatim>\<open>.123\<close>
  and the default extension \<^verbatim>\<open>.js\<close> is loaded as \<^verbatim>\<open>components/widget.js.123\<close>.
\<close>

theorem load_append_unrecognized:
  assumes "\<not> isBuild config" and "\<not> specified req name" and "\<not> defined req name"
    and "plain_mapping p" and "lookup p name = JStr text"
    and "fingerprint = wrap p (JStr text)" and "truthy fingerprint"
    and "url = (if CHR ''!'' \<notin> set name then toUrl req name else name)"
    and "get (options p) ''mode'' = JStr APPEND"
    and "literal_extensions p" and "ext_match (extensionRegex p) url = None"
  shows "fst (resolve render p name req config) =
           (if CHR ''!'' \<notin> set url \<and> truthy (get (options p) ''defaultExtension'')
            then url @ ToString (get (options p) ''defaultExtension'') @ ToString fingerprint
            else url @ ToString fingerprint) \<and>
         (CHR ''!'' \<in> set name \<longrightarrow>
            fst (resolve render p name req config) = name @ ToString fingerprint) \<and>
         fst (load render p name req onLoad config) =
           request req [fst (resolve render p name req config)] (\<lambda>value. onLoad (Some value))"
proof -
  have "fst (resolve render p name req config) = fingerprinted render p url fingerprint"
    using assms(2,3,5-8) by (simp add: resolve_applied)
  then show ?thesis
    using assms(1,8) fingerprinted_append_no_match [OF assms(9,11), of render fingerprint]
    by (simp add: load_running)
qed

theorem load_append_unrecognized_witness:
  "\<not> isBuild run_config \<and> \<not> specified plain_host ''components/widget'' \<and>
   \<not> defined plain_host ''components/widget'' \<and>
   plain_mapping (bare_plugin ''.123'') \<and>
   lookup (bare_plugin ''.123'') ''components/widget'' = JStr ''.123'' \<and>
   wrap (bare_plugin ''.123'') (JStr ''.123'') = JStr ''.123'' \<and>
   toUrl plain_host ''components/widget'' = ''components/widget'' \<and>
   get (options (bare_plugin ''.123'')) ''mode'' = JStr APPEND \<and>
   get (options (bare_plugin ''.123'')) ''defaultExtension'' = JStr ''.js'' \<and>
   literal_extensions (bare_plugin ''.123'') \<and>
   ext_match (extensionRegex (bare_plugin ''.123'')) ''components/widget'' = None \<and>
   fst (load as_written (bare_plugin ''.123'') ''components/widget'' plain_host report run_config)
     = [Requested [''components/widget.js.123''], Completed (Some ''module'')] \<and>
   \<not> specified plain_host ''css!styles/app'' \<and> \<not> defined plain_host ''css!styles/app'' \<and>
   lookup (bare_plugin ''.123'') ''css!styles/app'' = JStr ''.123'' \<and>
   ext_match (extensionRegex (bare_plugin ''.123'')) ''css!styles/app'' = None \<and>
   fst (load as_written (bare_plugin ''.123'') ''css!styles/app'' plain_host report run_config)
     = [Requested [''css!styles/app.123''], Completed (Some ''module'')]"
proof -
  let ?p = "bare_plugin ''.123''"
  have x: "wrap ?p (JStr ''.123'') = JStr ''.123''"
    by code_simp
  have w: "JStr ''.123'' = wrap ?p (JStr ''.123'')"
    by (simp add: x)
  have t: "truthy (JStr ''.123'')"
    by simp
  have u: "''components/widget''
           = (if CHR ''!'' \<notin> set ''components/widget'' then toUrl plain_host ''components/widget''
              else ''components/widget'')"
    by (simp add: plain_host_facts)
  have v: "''css!styles/app''
           = (if CHR ''!'' \<notin> set ''css!styles/app'' then toUrl plain_host ''css!styles/app''
              else ''css!styles/app'')"
    by simp
  have c: "fst (load as_written ?p ''components/widget'' plain_host report run_config)
           = [Requested [''components/widget.js.123''], Completed (Some ''module'')]"
    using load_append_unrecognized [OF run_config_running plain_host_facts(1,2)
        samples_in_scope(6) samples_lookup(3) w t u widget_bare_facts(2) samples_in_scope(5)
        widget_bare_facts(4), of as_written report]
    by (simp add: widget_bare_facts(3) plain_host_facts deliver_def report_def)
  have d: "fst (load as_written ?p ''css!styles/app'' plain_host report run_config)
           = [Requested [''css!styles/app.123''], Completed (Some ''module'')]"
    using load_append_unrecognized [OF run_config_running plain_host_facts(1,2)
        samples_in_scope(6) samples_lookup(3) w t v widget_bare_facts(2) samples_in_scope(5)
        widget_bare_facts(5), of as_written report]
    by (simp add: widget_bare_facts(3) plain_host_facts deliver_def report_def)
  show ?thesis
    by (intro conjI)
      (rule run_config_running plain_host_facts samples_in_scope samples_lookup x
        widget_bare_facts c d)+
qed

text \<open>
  A name that the host reports as specified, or as defined, is loaded as it is, whatever
  the configuration: the load name is the logical name, the configuration object is
  unchanged, and the loaded value is handed to the completion callback.
\<close>

theorem load_of_specified_or_defined:
  assumes "\<not> isBuild config" and "specified req name \<or> defined req name"
  shows "resolve render p name req config = (name, config) \<and>
         load render p name req onLoad config =
           (request req [name] (\<lambda>value. onLoad (Some value)), config)"
proof -
  have "resolve render p name req config = (name, config)"
    using assms(2) by (auto intro: resolve_skipped)
  with assms(1) show ?thesis
    by (simp add: load_running)
qed

theorem load_of_specified_or_defined_witness:
  "\<not> isBuild run_config \<and> specified specified_host ''app/main.js'' \<and>
   load as_written (global_plugin ''v=1'') ''app/main.js'' specified_host report run_config
     = ([Requested [''app/main.js''], Completed (Some ''module'')], run_config) \<and>
   defined defined_host ''app/main.js'' \<and>
   load as_written (global_plugin ''v=1'') ''app/main.js'' defined_host report run_config
     = ([Requested [''app/main.js''], Completed (Some ''module'')], run_config)"
proof -
  have s: "specified specified_host ''app/main.js''"
    by (simp add: specified_host_def always_def)
  have f: "defined defined_host ''app/main.js''"
    by (simp add: defined_host_def always_def)
  have t: "request specified_host = deliver" "request defined_host = deliver"
    by (simp_all add: specified_host_def defined_host_def)
  note b = load_of_specified_or_defined [OF run_config_running disjI1 [OF s],
      of as_written "global_plugin ''v=1''" report]
  note c = load_of_specified_or_defined [OF run_config_running disjI2 [OF f],
      of as_written "global_plugin ''v=1''" report]
  show ?thesis
    using run_config_running s f b c by (simp add: t deliver_def report_def)
qed

text \<open>
  With a plain mapping or none, a name for which no fingerprint resolves (there is no
  default, and the mapping holds nothing under the name, neither as its own property
  nor as one of \<^verbatim>\<open>Object.prototype\<close>) is loaded as it is.
\<close>

theorem load_without_fingerprint:
  assumes "\<not> isBuild config" and "plain_mapping p"
    and "defaultFingerprint p = JUndefined"
    and "\<not> truthy (fingerprints p) \<or> get (fingerprints p) name = JUndefined"
  shows "resolve render p name req config = (name, config) \<and>
         load render p name req onLoad config =
           (request req [name] (\<lambda>value. onLoad (Some value)), config)"
proof -
  have "\<not> truthy (wrap p (lookup p name))"
    using assms(3,4) by (auto simp: lookup_nothing wrap_falsy)
  then have "resolve render p name req config = (name, config)"
    by (simp add: resolve_skipped)
  with assms(1) show ?thesis
    by (simp add: load_running)
qed

theorem load_without_fingerprint_witness:
  "\<not> isBuild run_config \<and> plain_mapping (mapping_plugin [(''a'', JStr ''.1'')] JUndefined) \<and>
   defaultFingerprint (mapping_plugin [(''a'', JStr ''.1'')] JUndefined) = JUndefined \<and>
   get (fingerprints (mapping_plugin [(''a'', JStr ''.1'')] JUndefined)) ''b'' = JUndefined \<and>
   load as_written (mapping_plugin [(''a'', JStr ''.1'')] JUndefined) ''b'' plain_host report run_config
     = ([Requested [''b''], Completed (Some ''module'')], run_config)"
proof -
  let ?p = "mapping_plugin [(''a'', JStr ''.1'')] JUndefined"
  have d: "defaultFingerprint ?p = JUndefined" "get (fingerprints ?p) ''b'' = JUndefined"
    by code_simp+
  have c: "load as_written ?p ''b'' plain_host report run_config
           = ([Requested [''b''], Completed (Some ''module'')], run_config)"
    using load_without_fingerprint [OF run_config_running samples_in_scope(8) d(1)
        disjI2 [OF d(2)], of as_written plain_host report]
    by (simp add: plain_host_facts deliver_def report_def)
  show ?thesis
    by (intro conjI) (rule run_config_running samples_in_scope d c)+
qed

text \<open>
  The fingerprint looked up for a name, in a plugin the factory has made with a plain
  mapping or none: with a mapping, what the mapping holds under that name (as its own
  property or as one of \<^verbatim>\<open>Object.prototype\<close>) if that is not \<^verbatim>\<open>undefined\<close>, otherwise
  the mapping's \<^verbatim>\<open>default\<close> entry if that is truthy, otherwise \<^verbatim>\<open>undefined\<close>; without
  a mapping, the default fingerprint.
\<close>

theorem lookup_precedence:
  assumes "factory moduleConfig = Inr p" and "plain_mapping p"
  shows "lookup p name =
           (if truthy (fingerprints p)
            then (if get (fingerprints p) name \<noteq> JUndefined then get (fingerprints p) name
                  else if truthy (get (fingerprints p) ''default'')
                       then get (fingerprints p) ''default''
                       else JUndefined)
            else defaultFingerprint p)"
  using factory_default [OF assms(1)] by (simp add: lookup_def)

theorem lookup_precedence_witness:
  "factory (JObj [(''a'', JStr ''.1''), (''default'', JStr ''.9'')])
     = Inr (mapping_plugin [(''a'', JStr ''.1''), (''default'', JStr ''.9'')] (JStr ''.9'')) \<and>
   plain_mapping (mapping_plugin [(''a'', JStr ''.1''), (''default'', JStr ''.9'')] (JStr ''.9'')) \<and>
   lookup (mapping_plugin [(''a'', JStr ''.1''), (''default'', JStr ''.9'')] (JStr ''.9'')) ''a''
     = JStr ''.1'' \<and>
   lookup (mapping_plugin [(''a'', JStr ''.1''), (''default'', JStr ''.9'')] (JStr ''.9'')) ''b''
     = JStr ''.9'' \<and>
   factory (JStr ''v=1'') = Inr (global_plugin ''v=1'') \<and>
   plain_mapping (global_plugin ''v=1'') \<and>
   lookup (global_plugin ''v=1'') ''a'' = JStr ''v=1''"
proof -
  let ?p = "mapping_plugin [(''a'', JStr ''.1''), (''default'', JStr ''.9'')] (JStr ''.9'')"
  have e: "truthy (fingerprints ?p)" "get (fingerprints ?p) ''a'' = JStr ''.1''"
    "get (fingerprints ?p) ''b'' = JUndefined" "get (fingerprints ?p) ''default'' = JStr ''.9''"
    "\<not> truthy (fingerprints (global_plugin ''v=1''))"
    "defaultFingerprint (global_plugin ''v=1'') = JStr ''v=1''"
    by code_simp+
  have a: "lookup ?p ''a'' = JStr ''.1''"
    using lookup_precedence [OF factory_mapping samples_in_scope(8), of "''a''"] by (simp add: e)
  have b: "lookup ?p ''b'' = JStr ''.9''"
    using lookup_precedence [OF factory_mapping samples_in_scope(8), of "''b''"] by (simp add: e)
  have g: "lookup (global_plugin ''v=1'') ''a'' = JStr ''v=1''"
    using lookup_precedence [OF factory_global samples_in_scope(2), of "''a''"] by (simp add: e)
  show ?thesis
    by (intro conjI) (rule factory_mapping factory_global samples_in_scope a b g)+
qed

text \<open>
  Without a configuration (\<^verbatim>\<open>undefined\<close>, or the empty string) the factory throws
  its error and leaves no plugin.
\<close>

theorem factory_unconfigured:
  assumes "\<not> truthy moduleConfig"
  shows "factory moduleConfig = Inl (Error ''Require.fingerprint need to be configured'')"
  using assms by (simp add: factory_def)

theorem factory_unconfigured_witness:
  "\<not> truthy JUndefined \<and>
   factory JUndefined = Inl (Error ''Require.fingerprint need to be configured'') \<and>
   \<not> truthy (JStr []) \<and>
   factory (JStr []) = Inl (Error ''Require.fingerprint need to be configured'')"
proof -
  have a: "\<not> truthy JUndefined" and b: "\<not> truthy (JStr [])"
    by simp_all
  show ?thesis
    using a b factory_unconfigured [OF a] factory_unconfigured [OF b] by simp
qed

text \<open>
  A configuration that is a non-empty string is the default fingerprint; no mapping is
  set and the options are the built-in ones.
\<close>

theorem factory_string:
  assumes "text \<noteq> []"
  shows "factory (JStr text) =
           Inr \<lparr>defaultFingerprint = JStr text, fingerprints = JUndefined,
                options = builtin_options, extensionRegex = [''js'', ''css'', ''json'']\<rparr>"
proof -
  have "array_join ''|'' (get builtin_options ''extensions'') = Inr ''js|css|json''"
    by code_simp
  moreover have "split_bar ''js|css|json'' = [''js'', ''css'', ''json'']"
    by code_simp
  ultimately show ?thesis
    using assms by (simp add: factory_def)
qed

theorem factory_string_witness:
  "''v=7'' \<noteq> [] \<and> factory (JStr ''v=7'') = Inr (global_plugin ''v=7'')"
proof -
  have a: "''v=7'' \<noteq> []"
    by simp
  show ?thesis
    using a factory_string [OF a] by (simp add: global_plugin_def)
qed

text \<open>
  Loading the same name again, with the host answering the same, computes the same
  load name and leaves the name map as the first call left it.
\<close>

theorem resolve_twice:
  "resolve render p name req (snd (resolve render p name req config))
     = resolve render p name req config"
proof -
  let ?l = "fst (resolve render p name req config)"
  let ?c = "snd (resolve render p name req config)"
  have l: "fst (resolve render p name req c) = ?l" for c
    by (rule fst_resolve_config)
  have c: "snd (resolve render p name req c) = (if ?l \<noteq> name then map_name name ?l c else c)" for c
    using snd_resolve [of render p name req c] l [of c] by simp
  have "snd (resolve render p name req ?c) = ?c"
  proof (cases "?l = name")
    case True
    then show ?thesis
      using c [of ?c] by simp
  next
    case False
    then have "?c = map_name name ?l config"
      using c [of config] by simp
    then show ?thesis
      using False c [of ?c] by (simp add: map_name_twice)
  qed
  then show ?thesis
    using l [of ?c] by (simp add: prod_eq_iff)
qed

end
